theory Spec2Isabelle
  imports Main
begin

section \<open>The query cache (\<open>QueryCache\<close> in \<open>PERFORMANCE_SUMMARY.md\<close>, lines 430-494)\<close>

text \<open>
  \<^verbatim>\<open>
  interface CacheEntry<T> { data: T; timestamp: number; error: Error | null; }
  \<close>
  A stored value may be \<open>null\<close> (\<open>setError\<close> stores \<open>data: null\<close>), so \<open>data\<close> is an
  option with \<open>None\<close> for \<open>null\<close>; \<open>get\<close> returns \<open>T | null\<close> the same way.
  Times are milliseconds, as integers.
\<close>

record ('a, 'e) CacheEntry =
  data :: "'a option"
  timestamp :: int
  error :: "'e option"

text \<open>
  The object state is the \<open>Map\<close> and \<open>defaultTTL\<close>. The two effects the class has on
  its host are made explicit as two more fields: \<open>clock\<close> is what \<open>Date.now()\<close> returns,
  and \<open>timers\<close> are the callbacks registered with \<open>setTimeout\<close> and not yet run, each as
  the time it falls due and the key its closure \<open>() => this.cache.delete(key)\<close> deletes.
\<close>

record ('a, 'e) QueryCache =
  cache :: "string \<rightharpoonup> ('a, 'e) CacheEntry"
  defaultTTL :: int
  clock :: int
  timers :: "(int \<times> string) list"

text \<open>
  \<^verbatim>\<open>
  constructor(defaultTTL: number = 5 * 60 * 1000) { this.defaultTTL = defaultTTL; }
  export const createQueryCache = (ttl?: number) => new QueryCache(ttl);
  \<close>
  The second argument is the host's clock when the cache is created.
\<close>

definition createQueryCache :: "int option \<Rightarrow> int \<Rightarrow> ('a, 'e) QueryCache" where
  "createQueryCache ttl now =
     \<lparr>cache = Map.empty,
      defaultTTL = (case ttl of None \<Rightarrow> 5 * 60 * 1000 | Some t \<Rightarrow> t),
      clock = now,
      timers = []\<rparr>"

text \<open>
  \<^verbatim>\<open>
  set<T>(key: string, data: T, ttl: number = this.defaultTTL): void {
    this.cache.set(key, { data, timestamp: Date.now(), error: null });
    setTimeout(() => this.cache.delete(key), ttl);
  }
  \<close>
\<close>

definition set_cache ::
  "string \<Rightarrow> 'a option \<Rightarrow> int option \<Rightarrow> ('a, 'e) QueryCache \<Rightarrow> ('a, 'e) QueryCache" where
  "set_cache key d ttl c =
     c\<lparr>cache := (cache c)(key \<mapsto> \<lparr>data = d, timestamp = clock c, error = None\<rparr>),
       timers := timers c @
         [(clock c + (case ttl of None \<Rightarrow> defaultTTL c | Some t \<Rightarrow> t), key)]\<rparr>"

text \<open>
  \<^verbatim>\<open>
  get<T>(key: string): T | null {
    const entry = this.cache.get(key);
    if (!entry) return null;
    const age = Date.now() - entry.timestamp;
    if (age > this.defaultTTL) { this.cache.delete(key); return null; }
    return entry.data as T;
  }
  \<close>
  The result is the returned value together with the cache after the call.
\<close>

definition get :: "string \<Rightarrow> ('a, 'e) QueryCache \<Rightarrow> 'a option \<times> ('a, 'e) QueryCache" where
  "get key c =
     (case cache c key of
        None \<Rightarrow> (None, c)
      | Some entry \<Rightarrow>
          (let age = clock c - timestamp entry in
           if age > defaultTTL c
           then (None, c\<lparr>cache := (cache c)(key := None)\<rparr>)
           else (data entry, c)))"

text \<open>\<^verbatim>\<open>has(key: string): boolean { return this.cache.has(key); }\<close>\<close>

definition has :: "string \<Rightarrow> ('a, 'e) QueryCache \<Rightarrow> bool" where
  "has key c = (case cache c key of None \<Rightarrow> False | Some entry \<Rightarrow> True)"

text \<open>\<^verbatim>\<open>clear(): void { this.cache.clear(); }\<close>\<close>

definition clear :: "('a, 'e) QueryCache \<Rightarrow> ('a, 'e) QueryCache" where
  "clear c = c\<lparr>cache := Map.empty\<rparr>"

text \<open>\<^verbatim>\<open>delete(key: string): void { this.cache.delete(key); }\<close>\<close>

definition delete :: "string \<Rightarrow> ('a, 'e) QueryCache \<Rightarrow> ('a, 'e) QueryCache" where
  "delete key c = c\<lparr>cache := (cache c)(key := None)\<rparr>"

text \<open>
  \<^verbatim>\<open>
  setError(key: string, error: Error): void {
    this.cache.set(key, { data: null, timestamp: Date.now(), error });
  }
  \<close>
\<close>

definition setError :: "string \<Rightarrow> 'e \<Rightarrow> ('a, 'e) QueryCache \<Rightarrow> ('a, 'e) QueryCache" where
  "setError key err c =
     c\<lparr>cache := (cache c)(key \<mapsto> \<lparr>data = None, timestamp = clock c, error = Some err\<rparr>)\<rparr>"

text \<open>\<^verbatim>\<open>getSize(): number { return this.cache.size; }\<close>\<close>

definition getSize :: "('a, 'e) QueryCache \<Rightarrow> nat" where
  "getSize c = card (dom (cache c))"

subsection \<open>The host: the clock and the timer queue\<close>

text \<open>
  A timer callback of \<open>set\<close> runs \<open>this.cache.delete(key)\<close>. \<open>run_timers\<close> runs a list of
  due callbacks. The host runs them by due time; each one only deletes its key, so the
  store they leave does not depend on their order, and the model takes the order of the
  queue.
\<close>

fun run_timers :: "(int \<times> string) list \<Rightarrow> (string \<rightharpoonup> 'v) \<Rightarrow> (string \<rightharpoonup> 'v)" where
  "run_timers [] m = m"
| "run_timers ((due, key) # ts) m = run_timers ts (m(key := None))"

text \<open>
  \<open>advance d\<close> lets \<open>d\<close> milliseconds pass with no call on the cache: the clock moves on
  and every timer that has fallen due by then runs and leaves the queue. This is the
  simulated clock of the spec's tests; a callback never runs inside a call of the class
  (JavaScript runs it from the event loop), so timers run here and nowhere else. A timer
  falls due exactly its delay after the call of \<open>set\<close>; what a host does with a delay
  beyond its own limit (about 24.8 days) is not modelled.
\<close>

definition advance :: "nat \<Rightarrow> ('a, 'e) QueryCache \<Rightarrow> ('a, 'e) QueryCache" where
  "advance d c =
     (let now = clock c + int d in
      c\<lparr>clock := now,
        cache := run_timers (filter (\<lambda>t. fst t \<le> now) (timers c)) (cache c),
        timers := filter (\<lambda>t. now < fst t) (timers c)\<rparr>)"

subsection \<open>Sequences of calls\<close>

text \<open>
  What a client does with a cache over time: the calls of the class, and lapses of time
  between them.
\<close>

datatype ('a, 'e) call =
    CallSet string "'a option" "int option"
  | CallGet string
  | CallHas string
  | CallClear
  | CallDelete string
  | CallSetError string 'e
  | CallGetSize
  | Wait nat

fun step :: "('a, 'e) call \<Rightarrow> ('a, 'e) QueryCache \<Rightarrow> ('a, 'e) QueryCache" where
  "step (CallSet key d ttl) c = set_cache key d ttl c"
| "step (CallGet key) c = snd (get key c)"
| "step (CallHas key) c = c"
| "step CallClear c = clear c"
| "step (CallDelete key) c = delete key c"
| "step (CallSetError key err) c = setError key err c"
| "step CallGetSize c = c"
| "step (Wait d) c = advance d c"

fun run :: "('a, 'e) call list \<Rightarrow> ('a, 'e) QueryCache \<Rightarrow> ('a, 'e) QueryCache" where
  "run [] c = c"
| "run (x # xs) c = run xs (step x c)"

text \<open>
  \<open>removes k x c\<close>: the step \<open>x\<close>, taken in the state \<open>c\<close>, is one of the ways in which the
  entry of \<open>k\<close> goes: it is overwritten by \<open>set\<close> or \<open>setError\<close> of \<open>k\<close>, removed by
  \<open>delete\<close> of \<open>k\<close> or by \<open>clear\<close>, evicted by a \<open>get\<close> of \<open>k\<close> that finds it stale, or
  deleted by a timer of \<open>k\<close> that falls due in a lapse of time.
\<close>

fun removes :: "string \<Rightarrow> ('a, 'e) call \<Rightarrow> ('a, 'e) QueryCache \<Rightarrow> bool" where
  "removes k (CallSet key d ttl) c = (key = k)"
| "removes k (CallGet key) c =
     (key = k \<and>
      (case cache c k of
         None \<Rightarrow> False
       | Some entry \<Rightarrow> defaultTTL c < clock c - timestamp entry))"
| "removes k (CallHas key) c = False"
| "removes k CallClear c = True"
| "removes k (CallDelete key) c = (key = k)"
| "removes k (CallSetError key err) c = (key = k)"
| "removes k CallGetSize c = False"
| "removes k (Wait d) c = list_ex (\<lambda>t. snd t = k \<and> fst t \<le> clock c + int d) (timers c)"

text \<open>\<open>undisturbed k xs c\<close>: run from \<open>c\<close>, none of the steps \<open>xs\<close> is such a step.\<close>

fun undisturbed :: "string \<Rightarrow> ('a, 'e) call list \<Rightarrow> ('a, 'e) QueryCache \<Rightarrow> bool" where
  "undisturbed k [] c = True"
| "undisturbed k (x # xs) c = (\<not> removes k x c \<and> undisturbed k xs (step x c))"

section \<open>Pagination (\<open>PERFORMANCE_OPTIMIZATION.md\<close>, section 1.2)\<close>

text \<open>
  \<^verbatim>\<open>
  const ITEMS_PER_PAGE = 12;
  const startIdx = (currentPage - 1) * ITEMS_PER_PAGE;
  const { data: mediaData, count } = await supabase
    .from('media_content')
    .select(SELECTED_FIELDS, { count: 'exact' })
    .range(startIdx, startIdx + ITEMS_PER_PAGE - 1)
  \<close>
  The page size is a constant of the source; the definitions take it as a parameter, a
  natural number, so that a statement can range over it. The page number is a JavaScript
  number, here an integer.
\<close>

definition ITEMS_PER_PAGE :: nat where
  "ITEMS_PER_PAGE = 12"

definition startIdx :: "int \<Rightarrow> nat \<Rightarrow> int" where
  "startIdx currentPage pageSize = (currentPage - 1) * int pageSize"

record content_query =
  from_table :: string
  range_from :: int
  range_to :: int

definition contentQuery :: "int \<Rightarrow> nat \<Rightarrow> content_query" where
  "contentQuery currentPage pageSize =
     \<lparr>from_table = ''media_content'',
      range_from = startIdx currentPage pageSize,
      range_to = startIdx currentPage pageSize + int pageSize - 1\<rparr>"

text \<open>
  Modelled from the spec: the remote content store, which is not part of the repository
  (``a queryable table of media records supporting ... offset/limit pagination''). The
  table is the list of its rows in the order of the query, and a range selects the rows
  at the positions \<open>range_from\<close> to \<open>range_to\<close>, both included; a range that starts below
  zero or ends before it starts selects nothing.
\<close>

definition runQuery :: "content_query \<Rightarrow> 'r list \<Rightarrow> 'r list" where
  "runQuery q rows =
     (if 0 \<le> range_from q \<and> range_from q \<le> range_to q
      then take (nat (range_to q - range_from q + 1)) (drop (nat (range_from q)) rows)
      else [])"

section \<open>Fetching the interaction state\<close>







section \<open>Basic facts about the operations\<close>

lemma run_timers_apply:
  "run_timers ts m k = (if k \<in> snd ` set ts then None else m k)"
proof (induction ts arbitrary: m)
  case Nil
  show ?case by simp
next
  case (Cons t ts)
  obtain due key where t: "t = (due, key)" by (cases t)
  show ?case unfolding t by (simp add: Cons.IH)
qed

lemma cache_advance:
  "cache (advance d c) k =
     (if \<exists>due. (due, k) \<in> set (timers c) \<and> due \<le> clock c + int d then None else cache c k)"
  by (force simp: advance_def Let_def run_timers_apply)

lemma clock_advance: "clock (advance d c) = clock c + int d"
  by (simp add: advance_def Let_def)

lemma defaultTTL_advance: "defaultTTL (advance d c) = defaultTTL c"
  by (simp add: advance_def Let_def)

lemma get_stale:
  "cache c k = Some entry \<Longrightarrow> defaultTTL c < clock c - timestamp entry \<Longrightarrow>
   get k c = (None, c\<lparr>cache := (cache c)(k := None)\<rparr>)"
  by (simp add: get_def)

lemma get_fresh:
  "cache c k = Some entry \<Longrightarrow> clock c - timestamp entry \<le> defaultTTL c \<Longrightarrow>
   get k c = (data entry, c)"
  by (simp add: get_def)

lemma get_missing: "cache c k = None \<Longrightarrow> get k c = (None, c)"
  by (simp add: get_def)

lemma get_after_default_ttl_elapsed:
  "defaultTTL c < int d \<Longrightarrow> fst (get k (advance d (set_cache k v ttl c))) = None"
  by (simp add: get_def cache_advance clock_advance defaultTTL_advance set_cache_def
      split: option.splits)

lemma removes_Wait_iff:
  "removes k (Wait d) c \<longleftrightarrow> (\<exists>due. (due, k) \<in> set (timers c) \<and> due \<le> clock c + int d)"
  by (force simp: list_ex_iff)

lemma step_keeps_entry:
  assumes "cache c k = Some entry" and "\<not> removes k x c"
  shows "cache (step x c) k = Some entry"
proof (cases x)
  case (CallSet key d ttl)
  with assms show ?thesis by (simp add: set_cache_def)
next
  case (CallGet key)
  with assms show ?thesis by (auto simp: get_def Let_def split: option.splits)
next
  case (CallDelete key)
  with assms show ?thesis by (simp add: delete_def)
next
  case (CallSetError key err)
  with assms show ?thesis by (simp add: setError_def)
next
  case (Wait d)
  with assms show ?thesis by (simp only: step.simps removes_Wait_iff cache_advance if_False)
qed (use assms in simp_all)

lemma run_keeps_entry:
  "cache c k = Some entry \<Longrightarrow> undisturbed k xs c \<Longrightarrow> cache (run (take n xs) c) k = Some entry"
proof (induction xs arbitrary: c n)
  case Nil
  then show ?case by simp
next
  case (Cons x xs)
  show ?case
  proof (cases n)
    case 0
    with Cons.prems show ?thesis by simp
  next
    case (Suc m)
    have "cache (step x c) k = Some entry"
      using Cons.prems by (simp add: step_keeps_entry)
    moreover have "undisturbed k xs (step x c)"
      using Cons.prems by simp
    ultimately have "cache (run (take m xs) (step x c)) k = Some entry"
      by (rule Cons.IH)
    with Suc show ?thesis by simp
  qed
qed

lemma clear_getSize: "getSize (clear c) = 0"
  by (simp add: getSize_def clear_def)

text \<open>
  The end-to-end example of the spec, for an entry stored with the default TTL: at
  300000 ms the entry is gone because the timer of \<open>set\<close> has removed it, not because
  \<open>get\<close> found it stale.
\<close>

lemma default_ttl_example:
  "fst (get ''k'' (advance 299999 (set_cache ''k'' (Some ''v'') None
          (createQueryCache None 0 :: (string, string) QueryCache)))) = Some ''v'' \<and>
   cache (advance 300000 (set_cache ''k'' (Some ''v'') None
          (createQueryCache None 0 :: (string, string) QueryCache))) ''k'' = None \<and>
   fst (get ''k'' (advance 300000 (set_cache ''k'' (Some ''v'') None
          (createQueryCache None 0 :: (string, string) QueryCache)))) = None"
  by (simp add: get_def advance_def set_cache_def createQueryCache_def Let_def)

section \<open>The staleness check of \<open>get\<close>\<close>

text \<open>
  C1. The claim: \<open>get\<close> returns the stored value exactly when the entry's age is strictly
  less than the default TTL, so with the default TTL of 300000 ms it returns absent at age
  exactly 300000 ms. The code tests \<open>age > this.defaultTTL\<close>: an entry that is still in the
  store at age exactly 300000 ms (here one stored with a TTL of 600000 ms, whose timer has
  not run) is returned.
\<close>

theorem get_at_default_ttl_boundary:
  "fst (get ''k'' (advance 300000
          (set_cache ''k'' (Some ''v'') (Some 600000)
             (createQueryCache None 0 :: (string, string) QueryCache)))) = Some ''v''"
  by (simp add: get_def advance_def set_cache_def createQueryCache_def Let_def)

text \<open>
  C2. The claim: after a clock advance of at least the default TTL, \<open>get\<close> returns absent
  even if \<open>set\<close> was given a longer TTL. After an advance of more than the default TTL it
  does (\<open>get_after_default_ttl_elapsed\<close>); after an advance of exactly the default TTL
  (1000 ms here, entry stored for 5000 ms) the value is still returned.
\<close>

theorem get_after_exactly_default_ttl_custom_ttl:
  "fst (get ''page'' (advance 1000
          (set_cache ''page'' (Some (7::nat)) (Some 5000)
             (createQueryCache (Some 1000) 0 :: (nat, string) QueryCache)))) = Some 7"
  by (simp add: get_def advance_def set_cache_def createQueryCache_def Let_def)

section \<open>Writing and reading back\<close>

text \<open>
  C3, as stated, fails for a cache built with a negative default TTL: the age 0 of the
  entry just written is greater than \<open>-1\<close>, so \<open>get\<close> evicts it and returns \<open>null\<close>.
\<close>

theorem set_then_get_negative_default_ttl:
  "fst (get ''k'' (set_cache ''k'' (Some (1::nat)) (Some 5)
          (createQueryCache (Some (- 1)) 0 :: (nat, string) QueryCache))) = None \<and>
   fst (get ''k'' (set_cache ''k'' (Some (1::nat)) (Some 5)
          (createQueryCache (Some (- 1)) 0 :: (nat, string) QueryCache))) \<noteq> Some 1"
  by (simp add: get_def set_cache_def createQueryCache_def)

text \<open>
  C3, amended. On a cache whose default TTL is not negative, for every key \<open>k\<close>, value \<open>v\<close>
  and TTL \<open>t\<close> (given or left to the default), \<open>set(k, v, t)\<close> followed at once, with no
  clock advance, by \<open>get(k)\<close> returns \<open>v\<close>.
\<close>

theorem set_then_get:
  "0 \<le> defaultTTL c \<Longrightarrow> fst (get k (set_cache k v t c)) = v"
  by (simp add: get_def set_cache_def)

text \<open>The amended C3 on the default cache, key \<open>k\<close>, value 1 and a TTL of 5 ms.\<close>

theorem set_then_get_witness:
  "0 \<le> defaultTTL (createQueryCache None 0 :: (nat, string) QueryCache) \<and>
   fst (get ''k'' (set_cache ''k'' (Some (1::nat)) (Some 5)
          (createQueryCache None 0 :: (nat, string) QueryCache))) = Some 1"
  using set_then_get
    [of "createQueryCache None 0 :: (nat, string) QueryCache" "''k''" "Some 1" "Some 5"]
  by (simp add: createQueryCache_def)

section \<open>Error entries\<close>

text \<open>
  C4, as stated, fails when a timer of an earlier \<open>set\<close> of the same key falls due inside
  the TTL window: \<open>set(k, 1, 100)\<close>, then \<open>setError(k, boom)\<close>, then 100 ms later \<open>get(k)\<close>
  returns absent, but the sentinel entry is no longer in the cache.
\<close>

theorem setError_sentinel_removed_by_earlier_timer:
  "fst (get ''k'' (advance 100 (setError ''k'' ''boom''
          (set_cache ''k'' (Some (1::nat)) (Some 100)
             (createQueryCache None 0 :: (nat, string) QueryCache))))) = None \<and>
   \<not> has ''k'' (snd (get ''k'' (advance 100 (setError ''k'' ''boom''
          (set_cache ''k'' (Some (1::nat)) (Some 100)
             (createQueryCache None 0 :: (nat, string) QueryCache))))))"
  by (simp add: get_def has_def advance_def setError_def set_cache_def createQueryCache_def
      Let_def)

text \<open>
  C4, amended. For every key \<open>k\<close> and error \<open>e\<close>: after \<open>setError(k, e)\<close>, a \<open>get(k)\<close> made
  \<open>d\<close> ms later, within the TTL window (\<open>d\<close> less than the default TTL), returns absent for
  data and leaves the sentinel entry carrying \<open>e\<close> in the cache, provided no removal timer
  scheduled by an earlier \<open>set\<close> of \<open>k\<close> falls due in those \<open>d\<close> ms.
\<close>

theorem setError_then_get:
  assumes window: "int d < defaultTTL c"
    and no_timer: "\<forall>due. (due, k) \<in> set (timers c) \<longrightarrow> clock c + int d < due"
  shows "fst (get k (advance d (setError k e c))) = None \<and>
         cache (snd (get k (advance d (setError k e c)))) k
           = Some \<lparr>data = None, timestamp = clock c, error = Some e\<rparr>"
proof -
  let ?s = "advance d (setError k e c)"
  let ?entry = "\<lparr>data = None, timestamp = clock c, error = Some e\<rparr> :: ('a, 'b) CacheEntry"
  have "\<not> (\<exists>due. (due, k) \<in> set (timers (setError k e c))
              \<and> due \<le> clock (setError k e c) + int d)"
    using no_timer by (auto simp: setError_def)
  then have stored: "cache ?s k = Some ?entry"
    by (simp only: cache_advance if_False) (simp add: setError_def)
  have age: "clock ?s - timestamp ?entry \<le> defaultTTL ?s"
    using window by (simp add: clock_advance defaultTTL_advance setError_def)
  have "get k ?s = (data ?entry, ?s)"
    using stored age by (rule get_fresh)
  then show ?thesis using stored by simp
qed

text \<open>
  The amended C4 on the default cache with a pending timer of another key: the sentinel
  of \<open>k\<close> is read 299999 ms after it was written.
\<close>

theorem setError_then_get_witness:
  "int 299999 < defaultTTL (set_cache ''other'' (Some (1::nat)) (Some 100)
             (createQueryCache None 0 :: (nat, string) QueryCache)) \<and>
   fst (get ''k'' (advance 299999 (setError ''k'' ''boom''
          (set_cache ''other'' (Some (1::nat)) (Some 100)
             (createQueryCache None 0 :: (nat, string) QueryCache))))) = None \<and>
   cache (snd (get ''k'' (advance 299999 (setError ''k'' ''boom''
          (set_cache ''other'' (Some (1::nat)) (Some 100)
             (createQueryCache None 0 :: (nat, string) QueryCache)))))) ''k''
     = Some \<lparr>data = None, timestamp = 0, error = Some ''boom''\<rparr>"
  using setError_then_get [of 299999
      "set_cache ''other'' (Some (1::nat)) (Some 100)
         (createQueryCache None 0 :: (nat, string) QueryCache)" "''k''" "''boom''"]
  by (simp add: set_cache_def createQueryCache_def)

section \<open>\<open>has\<close> and \<open>delete\<close>\<close>

text \<open>
  C5. \<open>has(k)\<close> is true exactly when the store holds a raw entry for \<open>k\<close>, with no
  staleness check: for an entry whose age exceeds the default TTL and that is still in
  the store, \<open>has(k)\<close> is true although \<open>get(k)\<close> returns absent.
\<close>

theorem has_ignores_staleness:
  "(has k c \<longleftrightarrow> cache c k \<noteq> None) \<and>
   (cache c k = Some entry \<and> defaultTTL c < clock c - timestamp entry \<longrightarrow>
      has k c \<and> fst (get k c) = None)"
  by (simp add: has_def get_def split: option.splits)

text \<open>
  C5 on an entry stored for 600000 ms in the default cache and read 300001 ms later: it
  is still in the store, older than the default TTL.
\<close>

theorem has_ignores_staleness_witness:
  "cache (advance 300001 (set_cache ''k'' (Some (1::nat)) (Some 600000)
            (createQueryCache None 0 :: (nat, string) QueryCache))) ''k''
     = Some \<lparr>data = Some 1, timestamp = 0, error = None\<rparr> \<and>
   has ''k'' (advance 300001 (set_cache ''k'' (Some (1::nat)) (Some 600000)
            (createQueryCache None 0 :: (nat, string) QueryCache))) \<and>
   fst (get ''k'' (advance 300001 (set_cache ''k'' (Some (1::nat)) (Some 600000)
            (createQueryCache None 0 :: (nat, string) QueryCache)))) = None"
  using has_ignores_staleness
    [of "''k''"
        "advance 300001 (set_cache ''k'' (Some (1::nat)) (Some 600000)
            (createQueryCache None 0 :: (nat, string) QueryCache))"
        "\<lparr>data = Some 1, timestamp = 0, error = None\<rparr>"]
  by (simp add: advance_def set_cache_def createQueryCache_def Let_def)

text \<open>
  C6. After \<open>delete(k)\<close>, \<open>get(k)\<close> returns absent and \<open>has(k)\<close> is false; \<open>delete\<close> removes
  the entry of \<open>k\<close> whatever it is and changes nothing when there is none.
\<close>

theorem delete_removes_entry:
  "fst (get k (delete k c)) = None \<and> \<not> has k (delete k c) \<and>
   cache (delete k c) = (cache c)(k := None) \<and>
   (\<not> has k c \<longrightarrow> delete k c = c)"
  by (auto simp: get_def delete_def has_def fun_upd_idem split: option.splits)

text \<open>C6 on the empty cache (nothing to delete) and on a cache that holds the key.\<close>

theorem delete_removes_entry_witness:
  "\<not> has ''k'' (createQueryCache None 0 :: (nat, string) QueryCache) \<and>
   delete ''k'' (createQueryCache None 0 :: (nat, string) QueryCache) = createQueryCache None 0 \<and>
   fst (get ''k'' (delete ''k'' (set_cache ''k'' (Some (1::nat)) None
         (createQueryCache None 0 :: (nat, string) QueryCache)))) = None"
  using delete_removes_entry [of "''k''" "createQueryCache None 0 :: (nat, string) QueryCache"]
    delete_removes_entry [of "''k''" "set_cache ''k'' (Some (1::nat)) None
         (createQueryCache None 0 :: (nat, string) QueryCache)"]
  by (simp add: has_def createQueryCache_def)

section \<open>Pagination and the interaction queries\<close>

text \<open>
  C7. For page number \<open>p\<close> and page size \<open>n\<close> the content query starts at offset
  \<open>(p - 1) * n\<close> and returns at most \<open>n\<close> items, for \<open>p\<close> at least 1 the \<open>n\<close> rows from that
  offset on; with \<open>n = 12\<close>, page 1 starts at offset 0 and page 2 at offset 12.
\<close>

theorem pagination_offset:
  "range_from (contentQuery p n) = (p - 1) * int n \<and>
   length (runQuery (contentQuery p n) rows) \<le> n \<and>
   (1 \<le> p \<longrightarrow>
      runQuery (contentQuery p n) rows = take n (drop (nat ((p - 1) * int n)) rows)) \<and>
   range_from (contentQuery 1 ITEMS_PER_PAGE) = 0 \<and>
   range_from (contentQuery 2 ITEMS_PER_PAGE) = 12 \<and>
   length (runQuery (contentQuery 1 ITEMS_PER_PAGE) rows) \<le> 12"
  by (auto simp: contentQuery_def startIdx_def runQuery_def ITEMS_PER_PAGE_def)

text \<open>C7 on page 2 of a table of seven rows, three rows to the page.\<close>

theorem pagination_offset_witness:
  "(1::int) \<le> 2 \<and>
   range_from (contentQuery 2 3) = 3 \<and>
   runQuery (contentQuery 2 3) [''a'', ''b'', ''c'', ''d'', ''e'', ''f'', ''g'']
     = [''d'', ''e'', ''f'']"
  using pagination_offset [of 2 3 "[''a'', ''b'', ''c'', ''d'', ''e'', ''f'', ''g'']"]
  by (simp add: numeral_3_eq_3)




section \<open>The removal timers of \<open>set\<close>\<close>

text \<open>
  C9. \<open>set\<close> adds one removal timer for the key, due after the given TTL, and keeps every
  timer already pending, those of the same key included. So in the sequence
  \<open>set(k, v1, 1000)\<close> at time 0, \<open>set(k, v2, 5000)\<close> at time 400, the entry holding \<open>v2\<close> is
  in the store at time 999 and removed at time 1000, long before its own 5000 ms are over.
\<close>

theorem set_timer_survives_overwrite:
  "timers (set_cache k v ttl c)
     = timers c @ [(clock c + (case ttl of None \<Rightarrow> defaultTTL c | Some t \<Rightarrow> t), k)] \<and>
   (let s1 = set_cache ''k'' (Some ''v1'') (Some 1000)
               (createQueryCache None 0 :: (string, string) QueryCache);
        s2 = set_cache ''k'' (Some ''v2'') (Some 5000) (advance 400 s1)
    in cache (advance 599 s2) ''k''
         = Some \<lparr>data = Some ''v2'', timestamp = 400, error = None\<rparr> \<and>
       clock (advance 600 s2) = 1000 \<and>
       cache (advance 600 s2) ''k'' = None)"
  by (simp add: advance_def set_cache_def createQueryCache_def Let_def)

text \<open>
  C10, as stated, fails: a timer of an earlier \<open>set\<close> of the same key deletes the error
  entry. After \<open>set(k, 1)\<close> at time 0 and \<open>setError(k, boom)\<close> at time 1000 the entry is in
  the store, and 299000 ms later, with no call on the cache in between, it is gone.
\<close>

theorem setError_entry_deleted_by_timer:
  "has ''k'' (setError ''k'' ''boom'' (advance 1000
      (set_cache ''k'' (Some (1::nat)) None
         (createQueryCache None 0 :: (nat, string) QueryCache)))) \<and>
   \<not> has ''k'' (advance 299000 (setError ''k'' ''boom'' (advance 1000
      (set_cache ''k'' (Some (1::nat)) None
         (createQueryCache None 0 :: (nat, string) QueryCache)))))"
  by (simp add: has_def advance_def setError_def set_cache_def createQueryCache_def Let_def)

text \<open>
  C10, amended. Unlike \<open>set\<close>, \<open>setError\<close> schedules no timed removal for the entry it
  writes: it leaves the pending timers as they are. For every key \<open>k\<close>, the error entry
  written by \<open>setError(k, e)\<close> remains in the store (\<open>has(k)\<close> stays true), through every
  sequence of calls and lapses of time, until it is overwritten by \<open>set\<close> or \<open>setError\<close>,
  removed by \<open>delete\<close> or \<open>clear\<close>, evicted by a stale \<open>get\<close> read, or deleted by a removal
  timer that an earlier \<open>set\<close> of the same key scheduled and \<open>setError\<close> did not cancel; and
  every such timer that falls due does delete it.
\<close>

theorem setError_entry_remains:
  "timers (setError k e c) = timers c \<and>
   (undisturbed k xs (setError k e c) \<longrightarrow>
      (\<forall>n. has k (run (take n xs) (setError k e c)) \<and>
           cache (run (take n xs) (setError k e c)) k
             = Some \<lparr>data = None, timestamp = clock c, error = Some e\<rparr>)) \<and>
   ((due, k) \<in> set (timers c) \<and> due \<le> clock c + int d \<longrightarrow>
      \<not> has k (advance d (setError k e c)))"
proof (intro conjI impI allI)
  show "timers (setError k e c) = timers c"
    by (simp add: setError_def)
next
  fix n
  assume u: "undisturbed k xs (setError k e c)"
  have "cache (setError k e c) k = Some \<lparr>data = None, timestamp = clock c, error = Some e\<rparr>"
    by (simp add: setError_def)
  then have kept: "cache (run (take n xs) (setError k e c)) k
      = Some \<lparr>data = None, timestamp = clock c, error = Some e\<rparr>"
    using u by (rule run_keeps_entry)
  then show "has k (run (take n xs) (setError k e c))"
    by (simp add: has_def)
  show "cache (run (take n xs) (setError k e c)) k
      = Some \<lparr>data = None, timestamp = clock c, error = Some e\<rparr>"
    by (rule kept)
next
  assume "(due, k) \<in> set (timers c) \<and> due \<le> clock c + int d"
  then have "\<exists>t. (t, k) \<in> set (timers (setError k e c)) \<and> t \<le> clock (setError k e c) + int d"
    by (auto simp: setError_def)
  then have "cache (advance d (setError k e c)) k = None"
    by (simp only: cache_advance if_True)
  then show "\<not> has k (advance d (setError k e c))"
    by (simp add: has_def)
qed

text \<open>
  The amended C10 on a cache in which \<open>set(k, 1, 600000)\<close> has left a timer of \<open>k\<close>
  pending. After \<open>setError(k, boom)\<close>, calls on another key, reads of \<open>k\<close>, and 400000 ms
  (more than the default TTL) leave the error entry in the store; at 600000 ms the timer
  deletes it.
\<close>

theorem setError_entry_remains_witness:
  "undisturbed ''k''
     [CallSet ''other'' (Some 2) (Some 100), Wait 200, CallGet ''k'', CallHas ''k'',
      CallDelete ''other'', CallSetError ''other'' ''x'', CallGet ''other'',
      Wait 399800, CallGetSize]
     (setError ''k'' ''boom''
        (set_cache ''k'' (Some (1::nat)) (Some 600000)
           (createQueryCache None 0 :: (nat, string) QueryCache))) \<and>
   has ''k'' (run
     [CallSet ''other'' (Some 2) (Some 100), Wait 200, CallGet ''k'', CallHas ''k'',
      CallDelete ''other'', CallSetError ''other'' ''x'', CallGet ''other'',
      Wait 399800, CallGetSize]
     (setError ''k'' ''boom''
        (set_cache ''k'' (Some (1::nat)) (Some 600000)
           (createQueryCache None 0 :: (nat, string) QueryCache)))) \<and>
   \<not> has ''k'' (advance 600000 (setError ''k'' ''boom''
        (set_cache ''k'' (Some (1::nat)) (Some 600000)
           (createQueryCache None 0 :: (nat, string) QueryCache))))"
proof -
  let ?c = "set_cache ''k'' (Some (1::nat)) (Some 600000)
           (createQueryCache None 0 :: (nat, string) QueryCache)"
  let ?xs = "[CallSet ''other'' (Some 2) (Some 100), Wait 200, CallGet ''k'', CallHas ''k'',
      CallDelete ''other'', CallSetError ''other'' ''x'', CallGet ''other'',
      Wait 399800, CallGetSize] :: (nat, string) call list"
  have u: "undisturbed ''k'' ?xs (setError ''k'' ''boom'' ?c)"
    by (simp add: get_def delete_def advance_def setError_def set_cache_def
        createQueryCache_def Let_def)
  have t: "(600000, ''k'') \<in> set (timers ?c) \<and> 600000 \<le> clock ?c + int 600000"
    by (simp add: set_cache_def createQueryCache_def)
  from setError_entry_remains [of "''k''" "''boom''" ?c ?xs 600000 600000] u t
  have "(\<forall>n. has ''k'' (run (take n ?xs) (setError ''k'' ''boom'' ?c))) \<and>
        \<not> has ''k'' (advance 600000 (setError ''k'' ''boom'' ?c))"
    by blast
  then have "has ''k'' (run (take (length ?xs) ?xs) (setError ''k'' ''boom'' ?c)) \<and>
        \<not> has ''k'' (advance 600000 (setError ''k'' ''boom'' ?c))"
    by blast
  then show ?thesis using u by (simp only: take_all order_refl simp_thms)
qed

end
